theory Spec2Isabelle
  imports Complex_Main
begin

section \<open>A small model of the DOM\<close>

text \<open>
  A string of the program is a sequence of UTF-16 code units. The strings that enter
  the model (field values, class names, attribute values, the text of an input) are
  of type \<open>string\<close>: each character is one code unit below \<open>0x100\<close>, so
  \<open>length\<close> is the \<open>.length\<close> of the string; text with code units from
  \<open>0x100\<close> on is outside the model. The templates also write two characters
  beyond that range as text, so the text of an element and the message of a toast
  are lists of code units as numbers; \<open>units\<close> embeds a string.
\<close>

definition units :: "string \<Rightarrow> nat list" where
  "units s = map of_char s"

text \<open>
  The components build markup from template strings and then find elements by class
  or id. An element is modelled by its tag, its class list, its other attributes and
  its own text. A subtree is the list of its elements in document order, which is the
  order \<open>querySelector\<close> searches in.
\<close>

record element =
  tag :: string
  classList :: "string list"
  attrs :: "(string \<times> string) list"
  textContent :: "nat list"

definition el :: "string \<Rightarrow> string list \<Rightarrow> (string \<times> string) list \<Rightarrow> nat list \<Rightarrow> element" where
  "el t cs as txt = \<lparr>tag = t, classList = cs, attrs = as, textContent = txt\<rparr>"

definition getAttribute :: "element \<Rightarrow> string \<Rightarrow> string option" where
  "getAttribute e n = map_of (attrs e) n"

fun alist_set :: "string \<Rightarrow> string \<Rightarrow> (string \<times> string) list \<Rightarrow> (string \<times> string) list" where
  "alist_set n v [] = [(n, v)]"
| "alist_set n v ((k, w) # kvs) = (if k = n then (k, v) # kvs else (k, w) # alist_set n v kvs)"

definition setAttribute :: "string \<Rightarrow> string \<Rightarrow> element \<Rightarrow> element" where
  "setAttribute n v e = e\<lparr>attrs := alist_set n v (attrs e)\<rparr>"

definition removeAttribute :: "string \<Rightarrow> element \<Rightarrow> element" where
  "removeAttribute n e = e\<lparr>attrs := filter (\<lambda>kv. fst kv \<noteq> n) (attrs e)\<rparr>"

definition classList_contains :: "element \<Rightarrow> string \<Rightarrow> bool" where
  "classList_contains e c = (c \<in> set (classList e))"

definition classList_add :: "string \<Rightarrow> element \<Rightarrow> element" where
  "classList_add c e = (if c \<in> set (classList e) then e else e\<lparr>classList := classList e @ [c]\<rparr>)"

definition classList_remove :: "string \<Rightarrow> element \<Rightarrow> element" where
  "classList_remove c e = e\<lparr>classList := removeAll c (classList e)\<rparr>"

definition classList_toggle :: "string \<Rightarrow> bool \<Rightarrow> element \<Rightarrow> element" where
  "classList_toggle c force e = (if force then classList_add c e else classList_remove c e)"

text \<open>\<open>String.prototype.startsWith\<close>.\<close>

definition startsWith :: "string \<Rightarrow> string \<Rightarrow> bool" where
  "startsWith s p = (take (length p) s = p)"

section \<open>Navbar: the active link\<close>

text \<open>
  \<open>_updateActiveLink\<close> reads \<open>window.location.hash || '#/'\<close>, selects the anchors
  \<open>a[href^="#"]\<close> below the menu (none when the menu is missing) and sets the class
  \<open>active\<close> and the attribute \<open>aria-current\<close> on each of them.
\<close>

definition currentHash_of :: "string \<Rightarrow> string" where
  "currentHash_of location_hash = (if location_hash = [] then ''#/'' else location_hash)"

definition is_hash_link :: "element \<Rightarrow> bool" where
  "is_hash_link e =
     (tag e = ''a'' \<and> (case getAttribute e ''href'' of None \<Rightarrow> False | Some h \<Rightarrow> startsWith h ''#''))"

definition isActive :: "string \<Rightarrow> string \<Rightarrow> bool" where
  "isActive currentHash href =
     (href = currentHash \<or>
      (currentHash = ''#/'' \<and> href = ''#/'') \<or>
      (startsWith currentHash href \<and> href \<noteq> ''#/''))"

definition update_link :: "string \<Rightarrow> element \<Rightarrow> element" where
  "update_link currentHash link =
     (case getAttribute link ''href'' of
        None \<Rightarrow> link
      | Some href \<Rightarrow>
          (let active = isActive currentHash href;
               link1 = classList_toggle ''active'' active link
           in if active then setAttribute ''aria-current'' ''page'' link1
              else removeAttribute ''aria-current'' link1))"

definition updateActiveLink :: "string \<Rightarrow> element list option \<Rightarrow> element list option" where
  "updateActiveLink location_hash navMenu =
     (case navMenu of
        None \<Rightarrow> None
      | Some es \<Rightarrow>
          Some (map (\<lambda>e. if is_hash_link e then update_link (currentHash_of location_hash) e else e) es))"

definition nav_link :: "string \<Rightarrow> element" where
  "nav_link h = el ''a'' [] [(''href'', h)] []"

section \<open>Errors and strings\<close>

text \<open>
  A thrown exception or a rejected promise is a value: \<open>Inl\<close> of the error. A
  collaborator's own failure carries the name of its error object.
\<close>

datatype js_error = TypeError | RangeError | NamedError string

text \<open>
  \<open>String.prototype.trim\<close> strips white space and line terminators from both
  ends. Below \<open>0x100\<close> these are the seven code units listed; \<open>0xA0\<close> is the
  no-break space.
\<close>

definition is_js_space :: "char \<Rightarrow> bool" where
  "is_js_space c =
     (c \<in> set [CHR 0x09, CHR 0x0A, CHR 0x0B, CHR 0x0C, CHR 0x0D, CHR 0x20, CHR 0xA0])"

definition trim :: "string \<Rightarrow> string" where
  "trim s = rev (dropWhile is_js_space (rev (dropWhile is_js_space s)))"

section \<open>The document, LoginView and RegisterView\<close>

text \<open>
  The page state the views and the style injections act on. \<open>main_markup\<close> is what
  the container \<open>#mainContent\<close> currently holds; the three input values are what the
  inputs of the form of that markup hold; \<open>submit_bound\<close> says whether the
  current form carries the view's submit listener; \<open>alerts\<close> are the children of
  \<open>#alertContainer\<close> as class name and content; \<open>head_styles\<close> are the ids of the
  style elements appended to \<open>document.head\<close>, in order; \<open>static_ids\<close> are the ids
  of the page's own elements. The presenter is an external object: the model records
  whether a view has one and logs the calls made to it. Timers (the deferred link
  listeners and the fading of an alert) are not part of the model.
\<close>

datatype presenter_call =
    OnLoginSubmit string string
  | OnRegisterSubmit string string string

datatype markup = NoMarkup | LoginMarkup | RegisterMarkup

record page =
  footer_el :: bool
  footer_rendered :: bool
  main_content :: bool
  main_markup :: markup
  submit_bound :: bool
  name_value :: string
  email_value :: string
  password_value :: string
  alerts :: "(string \<times> string) list"
  static_ids :: "string list"
  head_styles :: "string list"
  login_container :: bool
  login_presenter :: bool
  register_container :: bool
  register_presenter :: bool
  presenter_calls :: "presenter_call list"

fun markup_ids :: "markup \<Rightarrow> string list" where
  "markup_ids NoMarkup = []"
| "markup_ids LoginMarkup =
     [''loginForm'', ''email'', ''password'', ''loginButton'', ''alertContainer'']"
| "markup_ids RegisterMarkup =
     [''registerForm'', ''name'', ''email'', ''password'', ''registerButton'', ''alertContainer'']"

text \<open>Whether \<open>document.getElementById\<close> finds an element.\<close>

definition getElementById_found :: "page \<Rightarrow> string \<Rightarrow> bool" where
  "getElementById_found pg i =
     (i \<in> set (static_ids pg) \<or> i \<in> set (head_styles pg) \<or> i \<in> set (markup_ids (main_markup pg)))"

definition appendStyle :: "string \<Rightarrow> page \<Rightarrow> page" where
  "appendStyle i pg = pg\<lparr>head_styles := head_styles pg @ [i]\<rparr>"

subsection \<open>Footer and Navbar styles\<close>

definition Footer_addStyles :: "page \<Rightarrow> page" where
  "Footer_addStyles pg =
     (if getElementById_found pg ''darkNavyFooter'' then pg else appendStyle ''darkNavyFooter'' pg)"

definition Footer_render :: "page \<Rightarrow> page" where
  "Footer_render pg =
     (if \<not> footer_el pg then pg else Footer_addStyles (pg\<lparr>footer_rendered := True\<rparr>))"

definition Footer_new :: "page \<Rightarrow> page" where
  "Footer_new pg = Footer_render pg"

definition Navbar_addScrollStyles :: "page \<Rightarrow> page" where
  "Navbar_addScrollStyles pg =
     (if getElementById_found pg ''navbarScrollStyles'' then pg
      else appendStyle ''navbarScrollStyles'' pg)"

definition StoryCard_addStyles :: "page \<Rightarrow> page" where
  "StoryCard_addStyles pg =
     (if getElementById_found pg ''story-card-styles'' then pg
      else appendStyle ''story-card-styles'' pg)"

subsection \<open>Alerts\<close>

text \<open>
  Both \<open>showAlert\<close> methods return at once without \<open>#alertContainer\<close>, remove the
  first element of class \<open>alert\<close> and append a new one.
\<close>

definition show_alert_with :: "string \<Rightarrow> string \<Rightarrow> page \<Rightarrow> page" where
  "show_alert_with cls message pg =
     (if \<not> getElementById_found pg ''alertContainer'' then pg
      else pg\<lparr>alerts := (case alerts pg of [] \<Rightarrow> [] | a # as \<Rightarrow> as) @ [(cls, message)]\<rparr>)"

definition LoginView_showAlert :: "string \<Rightarrow> page \<Rightarrow> page" where
  "LoginView_showAlert message pg = show_alert_with ''alert alert-danger'' message pg"

definition RegisterView_showAlert :: "string \<Rightarrow> string \<Rightarrow> page \<Rightarrow> page" where
  "RegisterView_showAlert message type pg = show_alert_with (''alert alert-'' @ type) message pg"

subsection \<open>LoginView\<close>

definition LoginView_new :: "page \<Rightarrow> page" where
  "LoginView_new pg = pg\<lparr>login_container := main_content pg, login_presenter := False\<rparr>"


definition LoginView_addAuthStyles :: "page \<Rightarrow> page" where
  "LoginView_addAuthStyles pg = appendStyle ''appleAuthStyles'' pg"

text \<open>
  \<open>_initListeners\<close>: when \<open>#loginForm\<close> exists it is replaced by a clone, which has
  no listeners, and the submit listener is added to the clone.
\<close>

definition LoginView_initListeners :: "page \<Rightarrow> page" where
  "LoginView_initListeners pg =
     (if main_markup pg = LoginMarkup then pg\<lparr>submit_bound := True\<rparr> else pg)"

text \<open>
  \<open>render\<close> assigns \<open>this.container.innerHTML\<close>, which throws when the constructor
  found no \<open>#mainContent\<close>. The new markup has empty inputs, no alert and a form
  without listeners.
\<close>

definition set_main_markup :: "markup \<Rightarrow> page \<Rightarrow> page" where
  "set_main_markup m pg =
     pg\<lparr>main_markup := m, submit_bound := False, name_value := [], email_value := [],
        password_value := [], alerts := []\<rparr>"

definition LoginView_render :: "page \<Rightarrow> js_error + page" where
  "LoginView_render pg =
     (if \<not> login_container pg then Inl TypeError
      else
        let pg1 = set_main_markup LoginMarkup pg;
            pg2 = (if \<not> getElementById_found pg1 ''appleAuthStyles''
                   then LoginView_addAuthStyles pg1 else pg1)
        in Inr (LoginView_initListeners pg2))"

text \<open>
  The submit listener. \<open>document.querySelector('#email')\<close> is null, and reading its
  value throws, when the document has no such input.
\<close>

definition login_on_submit :: "page \<Rightarrow> js_error + page" where
  "login_on_submit pg =
     (if login_presenter pg then
        (if ''email'' \<in> set (markup_ids (main_markup pg)) \<and>
            ''password'' \<in> set (markup_ids (main_markup pg))
         then Inr (pg\<lparr>presenter_calls :=
                 presenter_calls pg @ [OnLoginSubmit (email_value pg) (password_value pg)]\<rparr>)
         else Inl TypeError)
      else Inr (LoginView_showAlert ''Terjadi kesalahan sistem'' pg))"

text \<open>A submit event on the login form runs the listener when the form carries it.\<close>

definition submit_login_form :: "page \<Rightarrow> js_error + page" where
  "submit_login_form pg =
     (if main_markup pg = LoginMarkup \<and> submit_bound pg then login_on_submit pg else Inr pg)"


subsection \<open>RegisterView\<close>

definition RegisterView_new :: "page \<Rightarrow> page" where
  "RegisterView_new pg = pg\<lparr>register_container := main_content pg, register_presenter := False\<rparr>"

definition RegisterView_setPresenter :: "bool \<Rightarrow> page \<Rightarrow> page" where
  "RegisterView_setPresenter p pg = pg\<lparr>register_presenter := p\<rparr>"

definition RegisterView_injectStyles :: "page \<Rightarrow> page" where
  "RegisterView_injectStyles pg =
     (if getElementById_found pg ''registerStyles'' then pg else appendStyle ''registerStyles'' pg)"

text \<open>
  \<open>_initListeners\<close> clones \<open>#registerForm\<close> without a null check, so it throws when
  the form is missing.
\<close>

definition RegisterView_initListeners :: "page \<Rightarrow> js_error + page" where
  "RegisterView_initListeners pg =
     (if main_markup pg = RegisterMarkup then Inr (pg\<lparr>submit_bound := True\<rparr>) else Inl TypeError)"

definition RegisterView_render :: "page \<Rightarrow> js_error + page" where
  "RegisterView_render pg =
     (if \<not> register_container pg then Inl TypeError
      else RegisterView_initListeners (RegisterView_injectStyles (set_main_markup RegisterMarkup pg)))"

text \<open>
  The submit listener reads the three inputs of its own form, trimmed, and calls the
  presenter when there is one. It has no other branch.
\<close>

definition register_on_submit :: "page \<Rightarrow> js_error + page" where
  "register_on_submit pg =
     (let name = trim (name_value pg);
          email = trim (email_value pg);
          password = trim (password_value pg)
      in if register_presenter pg
         then Inr (pg\<lparr>presenter_calls := presenter_calls pg @ [OnRegisterSubmit name email password]\<rparr>)
         else Inr pg)"

definition submit_register_form :: "page \<Rightarrow> js_error + page" where
  "submit_register_form pg =
     (if main_markup pg = RegisterMarkup \<and> submit_bound pg then register_on_submit pg else Inr pg)"

subsection \<open>Sequences of constructions and renders\<close>

datatype page_op =
    NewFooter
  | FooterRender
  | LoadNavbar
  | StoryCardConnected
  | NewLoginView
  | LoginRender
  | NewRegisterView
  | RegisterRender

text \<open>A render that throws leaves the page as it was: it throws before its first write.\<close>

fun apply_op :: "page_op \<Rightarrow> page \<Rightarrow> page" where
  "apply_op NewFooter pg = Footer_new pg"
| "apply_op FooterRender pg = Footer_render pg"
| "apply_op LoadNavbar pg = Navbar_addScrollStyles pg"
| "apply_op StoryCardConnected pg = StoryCard_addStyles pg"
| "apply_op NewLoginView pg = LoginView_new pg"
| "apply_op LoginRender pg = (case LoginView_render pg of Inl e \<Rightarrow> pg | Inr pg' \<Rightarrow> pg')"
| "apply_op NewRegisterView pg = RegisterView_new pg"
| "apply_op RegisterRender pg = (case RegisterView_render pg of Inl e \<Rightarrow> pg | Inr pg' \<Rightarrow> pg')"

fun run_ops :: "page_op list \<Rightarrow> page \<Rightarrow> page" where
  "run_ops [] pg = pg"
| "run_ops (x # xs) pg = run_ops xs (apply_op x pg)"

text \<open>A page with a footer and a main container, before any script has run.\<close>

definition blank_page :: page where
  "blank_page =
     \<lparr>footer_el = True, footer_rendered = False, main_content = True, main_markup = NoMarkup,
      submit_bound = False, name_value = [], email_value = [], password_value = [],
      alerts = [], static_ids = [''mainContent'', ''navToggle''], head_styles = [],
      login_container = False, login_presenter = False, register_container = False,
      register_presenter = False, presenter_calls = []\<rparr>"

subsection \<open>Sequencing and user input\<close>

text \<open>Run the next step on the result of a step that did not throw.\<close>

definition then_do :: "'e + 'a \<Rightarrow> ('a \<Rightarrow> 'e + 'b) \<Rightarrow> 'e + 'b" where
  "then_do r f = (case r of Inl e \<Rightarrow> Inl e | Inr x \<Rightarrow> f x)"

text \<open>
  Text is entered into the inputs of the current form. What an input then holds is
  the entered text after the browser's sanitisation for the input's type, which the
  templates fix: line breaks are removed from every value (\<open>type="text"\<close>,
  \<open>type="password"\<close>, \<open>type="email"\<close>), and ASCII white space is stripped from
  both ends of an email value.
\<close>

definition strip_newlines :: "string \<Rightarrow> string" where
  "strip_newlines s = filter (\<lambda>c. c \<noteq> CHR 0x0A \<and> c \<noteq> CHR 0x0D) s"

definition is_ascii_whitespace :: "char \<Rightarrow> bool" where
  "is_ascii_whitespace c = (c \<in> set [CHR 0x09, CHR 0x0A, CHR 0x0C, CHR 0x0D, CHR 0x20])"

definition email_value_of :: "string \<Rightarrow> string" where
  "email_value_of s =
     rev (dropWhile is_ascii_whitespace (rev (dropWhile is_ascii_whitespace (strip_newlines s))))"


definition type_register :: "string \<Rightarrow> string \<Rightarrow> string \<Rightarrow> page \<Rightarrow> page" where
  "type_register name email password pg =
     pg\<lparr>name_value := strip_newlines name, email_value := email_value_of email,
        password_value := strip_newlines password\<rparr>"

section \<open>JavaScript values and the environment of a story card\<close>

text \<open>
  A number is \<open>NaN\<close>, an infinity or a finite value; the finite doubles are
  rationals, and the model does not tell the two zeros apart. The fields of a story
  record hold primitive values; a missing field reads as \<open>undefined\<close>.
\<close>

datatype jsnum = NaN | PosInfinity | NegInfinity | Finite rat

datatype jsval = JUndefined | JNull | JBool bool | JNum jsnum | JStr string

fun truthy :: "jsval \<Rightarrow> bool" where
  "truthy JUndefined = False"
| "truthy JNull = False"
| "truthy (JBool b) = b"
| "truthy (JNum NaN) = False"
| "truthy (JNum (Finite q)) = (q \<noteq> 0)"
| "truthy (JNum n) = True"
| "truthy (JStr s) = (s \<noteq> [])"

text \<open>The operator \<open>a || b\<close>.\<close>

definition or_else :: "jsval \<Rightarrow> jsval \<Rightarrow> jsval" where
  "or_else a b = (if truthy a then a else b)"

text \<open>The validated story record that \<open>_validateStoryData\<close> builds.\<close>

record story =
  story_id :: jsval
  name :: string
  photoUrl :: jsval
  description :: string
  createdAt :: jsval
  lat :: "jsnum option"
  lon :: "jsnum option"
  author :: jsval

text \<open>The record a caller assigns, and the value assigned: a primitive or an object.\<close>

record raw_story =
  raw_id :: jsval
  raw_name :: jsval
  raw_photoUrl :: jsval
  raw_description :: jsval
  raw_createdAt :: jsval
  raw_lat :: jsval
  raw_lon :: jsval
  raw_author :: jsval

datatype story_arg = Primitive jsval | Object raw_story

fun arg_truthy :: "story_arg \<Rightarrow> bool" where
  "arg_truthy (Primitive v) = truthy v"
| "arg_truthy (Object r) = True"

text \<open>Reading one of the eight fields of a primitive gives \<open>undefined\<close>.\<close>

fun fields_of :: "story_arg \<Rightarrow> raw_story" where
  "fields_of (Object r) = r"
| "fields_of (Primitive v) =
     \<lparr>raw_id = JUndefined, raw_name = JUndefined, raw_photoUrl = JUndefined,
      raw_description = JUndefined, raw_createdAt = JUndefined, raw_lat = JUndefined,
      raw_lon = JUndefined, raw_author = JUndefined\<rparr>"

text \<open>
  The built-ins and collaborators the card calls are parameters: the numeric part of
  \<open>parseFloat\<close> on a string (\<open>NaN\<close> when no prefix is a number), the conversion of a
  number to a string, the time value of \<open>new Date(v)\<close> (\<open>None\<close> for an invalid
  date), the two date formats, the clock, the id \<open>_generateId\<close> returns, and the
  global objects \<open>window.indexedDBHelper\<close>, \<open>window.showToast\<close>,
  \<open>navigator.share\<close> and \<open>navigator.clipboard\<close>, each of which may be missing.
  A call of a collaborator either returns or fails with an error.
\<close>

record share_data =
  sd_title :: string
  sd_text :: string
  sd_url :: string

record idb_helper =
  isFavorite :: "jsval \<Rightarrow> js_error + bool"
  addToFavorites :: "story option \<Rightarrow> js_error + unit"
  removeFromFavorites :: "jsval \<Rightarrow> js_error + unit"

record env =
  parseFloat_string :: "string \<Rightarrow> jsnum"
  Number_toString :: "jsnum \<Rightarrow> string"
  Date_value :: "jsval \<Rightarrow> int option"
  Date_toISOString :: "int \<Rightarrow> string"
  Date_toLocaleDateString :: "int \<Rightarrow> string"
  now :: int
  generated_id :: string
  indexedDBHelper :: "idb_helper option"
  showToast :: bool
  navigator_share :: "(share_data \<Rightarrow> js_error + unit) option"
  clipboard_writeText :: "(string \<Rightarrow> js_error + unit) option"
  location_href :: string

text \<open>\<open>ToString\<close>, as template interpolation and \<open>textContent\<close> apply it.\<close>

fun toString :: "env \<Rightarrow> jsval \<Rightarrow> string" where
  "toString env JUndefined = ''undefined''"
| "toString env JNull = ''null''"
| "toString env (JBool b) = (if b then ''true'' else ''false'')"
| "toString env (JNum n) = Number_toString env n"
| "toString env (JStr s) = s"

text \<open>
  \<open>parseFloat\<close> converts its argument to a string first. The strings of
  \<open>undefined\<close>, \<open>null\<close> and the booleans have no numeric prefix.
\<close>

fun parseFloat :: "env \<Rightarrow> jsval \<Rightarrow> jsnum" where
  "parseFloat env JUndefined = NaN"
| "parseFloat env JNull = NaN"
| "parseFloat env (JBool b) = NaN"
| "parseFloat env (JNum n) = parseFloat_string env (Number_toString env n)"
| "parseFloat env (JStr s) = parseFloat_string env s"

definition isNaN :: "jsnum \<Rightarrow> bool" where
  "isNaN n = (n = NaN)"

section \<open>StoryCard: validation and formatting\<close>

definition validateCoordinate :: "env \<Rightarrow> jsval \<Rightarrow> jsnum option" where
  "validateCoordinate env coord =
     (let num = parseFloat env coord in if \<not> isNaN num then Some num else None)"

text \<open>
  \<open>_sanitizeHTML\<close> assigns the string to \<open>textContent\<close> and reads \<open>innerHTML\<close>
  back: the serialisation of a text node, which escapes the ampersand, the two angle
  brackets and the no-break space (code unit \<open>0xA0\<close>). A double quote stays as it
  is.
\<close>

definition escape_char :: "char \<Rightarrow> string" where
  "escape_char c =
     (if c = CHR ''&'' then ''&amp;''
      else if c = CHR ''<'' then ''&lt;''
      else if c = CHR ''>'' then ''&gt;''
      else if c = CHR 0xA0 then ''&nbsp;''
      else [c])"

definition sanitizeHTML :: "env \<Rightarrow> jsval \<Rightarrow> string" where
  "sanitizeHTML env str = concat (map escape_char (toString env str))"

definition dq :: char where
  "dq = CHR 0x22"

definition getPlaceholderImage :: string where
  "getPlaceholderImage =
     ''data:image/svg+xml,%3Csvg xmlns='' @ [dq] @ ''http://www.w3.org/2000/svg'' @ [dq] @
     '' width='' @ [dq] @ ''400'' @ [dq] @ '' height='' @ [dq] @ ''300'' @ [dq] @
     ''%3E%3Crect fill='' @ [dq] @ ''%23f0f0f0'' @ [dq] @ '' width='' @ [dq] @ ''400'' @ [dq] @
     '' height='' @ [dq] @ ''300'' @ [dq] @ ''/%3E%3Ctext fill='' @ [dq] @ ''%23999'' @ [dq] @
     '' x='' @ [dq] @ ''50%25'' @ [dq] @ '' y='' @ [dq] @ ''50%25'' @ [dq] @
     '' dominant-baseline='' @ [dq] @ ''middle'' @ [dq] @ '' text-anchor='' @ [dq] @ ''middle'' @
     [dq] @ ''%3ENo Image%3C/text%3E%3C/svg%3E''"

definition validateStoryData :: "env \<Rightarrow> raw_story \<Rightarrow> story" where
  "validateStoryData env r =
     \<lparr>story_id = or_else (raw_id r) (JStr (generated_id env)),
      name = sanitizeHTML env (or_else (raw_name r) (JStr ''Untitled Story'')),
      photoUrl = or_else (raw_photoUrl r) (JStr getPlaceholderImage),
      description = sanitizeHTML env (or_else (raw_description r) (JStr ''No description'')),
      createdAt = or_else (raw_createdAt r) (JStr (Date_toISOString env (now env))),
      lat = validateCoordinate env (raw_lat r),
      lon = validateCoordinate env (raw_lon r),
      author = or_else (raw_author r) (JStr ''Anonymous'')\<rparr>"

text \<open>
  \<open>_formatDate\<close>: the constructor of \<open>Date\<close> does not throw, so the \<open>catch\<close>
  branch is never taken.
\<close>

definition formatDate :: "env \<Rightarrow> jsval \<Rightarrow> string" where
  "formatDate env dateString =
     (case Date_value env dateString of
        None \<Rightarrow> ''Invalid Date''
      | Some t \<Rightarrow> Date_toLocaleDateString env t)"

text \<open>The decimal digits of a natural number, as \<open>${days}\<close> prints one.\<close>

fun string_of_nat :: "nat \<Rightarrow> string" where
  "string_of_nat n =
     (if n < 10 then [''0123456789'' ! n]
      else string_of_nat (n div 10) @ [''0123456789'' ! (n mod 10)])"

text \<open>
  \<open>_formatRelativeTime\<close>. The difference of the two dates is \<open>NaN\<close> for an
  invalid date, and so are the four quotients; every comparison with \<open>NaN\<close> is
  false. \<open>Math.floor\<close> of a quotient of integers is \<open>div\<close>.
\<close>

definition nan_gt :: "int option \<Rightarrow> int \<Rightarrow> bool" where
  "nan_gt x k = (case x of None \<Rightarrow> False | Some v \<Rightarrow> v > k)"

definition nan_text :: "int option \<Rightarrow> string" where
  "nan_text x = (case x of None \<Rightarrow> ''NaN'' | Some v \<Rightarrow>
     (if v < 0 then ''-'' @ string_of_nat (nat (- v)) else string_of_nat (nat v)))"

definition formatRelativeTime :: "env \<Rightarrow> jsval \<Rightarrow> string" where
  "formatRelativeTime env dateString =
     (let date = Date_value env dateString;
          diff = map_option (\<lambda>t. now env - t) date;
          seconds = map_option (\<lambda>d. d div 1000) diff;
          minutes = map_option (\<lambda>d. d div 60) seconds;
          hours = map_option (\<lambda>d. d div 60) minutes;
          days = map_option (\<lambda>d. d div 24) hours
      in if nan_gt days 7 then formatDate env dateString
         else if nan_gt days 0 then nan_text days @ '' hari yang lalu''
         else if nan_gt hours 0 then nan_text hours @ '' jam yang lalu''
         else if nan_gt minutes 0 then nan_text minutes @ '' menit yang lalu''
         else ''Baru saja'')"

definition truncateText :: "string \<Rightarrow> nat \<Rightarrow> string" where
  "truncateText text maxLength =
     (if length text \<le> maxLength then text else trim (take maxLength text) @ ''...'')"

text \<open>
  \<open>_isFavorite\<close>: false without the helper, false when the lookup fails, else the
  helper's answer.
\<close>

definition isFavorite_of :: "env \<Rightarrow> story \<Rightarrow> bool" where
  "isFavorite_of env s =
     (case indexedDBHelper env of
        None \<Rightarrow> False
      | Some h \<Rightarrow> (case isFavorite h (story_id s) of Inl e \<Rightarrow> False | Inr b \<Rightarrow> b))"

section \<open>StoryCard: state, render and listeners\<close>

text \<open>
  The state of one card: the stored story (\<open>this._story\<close>), the image flag, the
  \<open>compact\<close> attribute, the card's children in document order, the listeners on
  those children (child index, event type, handler), the custom events dispatched so
  far, the toasts shown through \<open>window.showToast\<close>, and the rejections of
  \<open>render\<close> calls that nobody awaited. Console output is not part of the state.
  The \<open>await\<close>s are modelled as completing in place.
\<close>

datatype handler =
    HandleLocationClick
  | HandleImageLoad
  | HandleImageError
  | HandleFavoriteClick
  | HandleShareClick
  | DetailClick

datatype detail =
    StoryDetail "story option"
  | LocationDetail "story option" jsnum jsnum
  | FavoriteDetail "story option" bool

record card =
  story_data :: "story option"
  imageLoaded :: bool
  compact :: bool
  innerHTML :: "element list"
  listeners :: "(nat \<times> string \<times> handler) list"
  dispatched :: "(string \<times> detail) list"
  toasts :: "(nat list \<times> string) list"
  unhandled :: "js_error list"

definition new_card :: card where
  "new_card =
     \<lparr>story_data = None, imageLoaded = False, compact = False, innerHTML = [],
      listeners = [], dispatched = [], toasts = [], unhandled = []\<rparr>"

text \<open>The bullet U+2022 of the separator and the check mark U+2705 of two toasts.\<close>

definition bullet :: "nat list" where
  "bullet = [0x2022]"

definition check_mark :: "nat list" where
  "check_mark = [0x2705]"

definition favorite_label :: "bool \<Rightarrow> string" where
  "favorite_label isFavorited = (if isFavorited then ''Hapus dari favorit'' else ''Tambah ke favorit'')"

text \<open>\<open>${lat}\<close>: the string of a number, or of \<open>null\<close>.\<close>

definition coordinate_text :: "env \<Rightarrow> jsnum option \<Rightarrow> string" where
  "coordinate_text env c = (case c of None \<Rightarrow> ''null'' | Some n \<Rightarrow> Number_toString env n)"

text \<open>
  The markup of \<open>render\<close> for a story, element by element in the order of the
  template. \<open>isoString\<close> is the result of \<open>new Date(createdAt).toISOString()\<close>.
  Attribute values and texts are the strings the template writes between the quotes
  and between the tags. These are the elements the browser builds from the template
  as long as no string written into a quoted attribute (the id, the photo URL, the
  name, the two dates, the two coordinates) holds a double quote and no string
  written as text (the name, the author, the relative time, the description) holds
  \<open><\<close>. The template escapes neither the id, the photo URL and the author nor the
  double quotes of the name, and the placeholder image of a story without a photo
  holds double quotes; for such values the browser builds other attributes or other
  elements, which this definition does not follow. A character reference in a
  written string is kept as written, not decoded.
\<close>

definition story_markup :: "env \<Rightarrow> story \<Rightarrow> bool \<Rightarrow> bool \<Rightarrow> string \<Rightarrow> element list" where
  "story_markup env s isCompact isFavorited isoString =
     (let hasLocation = (lat s \<noteq> None \<and> lon s \<noteq> None) in
      [el ''article'' (''story-card'' # (if isCompact then [''compact''] else []))
          [(''data-story-id'', toString env (story_id s))] [],
       el ''div'' [''story-image-container''] [] [],
       el ''img'' [''story-image'']
          [(''src'', toString env (photoUrl s)), (''alt'', ''Cerita: '' @ name s),
           (''loading'', ''lazy''), (''decoding'', ''async'')] [],
       el ''div'' [''story-image-overlay''] [] [],
       el ''button'' ([''btn-icon'', ''btn-favorite''] @ (if isFavorited then [''active''] else []))
          [(''aria-label'', favorite_label isFavorited), (''title'', favorite_label isFavorited)] [],
       el ''i'' [''fas'', ''fa-heart''] [] [],
       el ''button'' [''btn-icon'', ''btn-share'']
          [(''aria-label'', ''Bagikan cerita''), (''title'', ''Bagikan cerita'')] [],
       el ''i'' [''fas'', ''fa-share-alt''] [] []] @
      (if hasLocation then
         [el ''div'' [''location-badge''] [(''title'', ''Lokasi tersedia'')] [],
          el ''i'' [''fas'', ''fa-map-marker-alt''] [] [],
          el ''span'' [''visually-hidden''] [] (units ''Memiliki lokasi'')]
       else []) @
      [el ''div'' [''story-content''] [] [],
       el ''div'' [''story-header''] [] [],
       el ''h3'' [''story-title''] [(''title'', name s)] (units (name s)),
       el ''div'' [''story-meta''] [] [],
       el ''span'' [''story-author''] [] [],
       el ''i'' [''fas'', ''fa-user''] [(''aria-hidden'', ''true'')] [],
       el ''span'' [] [] (units (toString env (author s))),
       el ''span'' [''story-separator''] [] bullet,
       el ''time'' [''story-date'']
          [(''datetime'', isoString), (''title'', formatDate env (createdAt s))]
          (units (formatRelativeTime env (createdAt s))),
       el ''p'' [''story-description''] []
          (units (truncateText (description s) (if isCompact then 100 else 150))),
       el ''div'' [''story-footer''] [] []] @
      (if hasLocation then
         [el ''button'' [''btn-location'']
            [(''data-lat'', coordinate_text env (lat s)), (''data-lon'', coordinate_text env (lon s)),
             (''aria-label'', ''Lihat lokasi di peta'')] [],
          el ''i'' [''fas'', ''fa-map-marker-alt''] [(''aria-hidden'', ''true'')] [],
          el ''span'' [] [] (units ''Lihat di Peta'')]
       else
         [el ''div'' [''no-location''] [] [],
          el ''i'' [''fas'', ''fa-map-marker-alt''] [(''aria-hidden'', ''true'')] [],
          el ''span'' [] [] (units ''Tidak ada lokasi'')]) @
      [el ''button'' [''btn-view-detail''] [(''aria-label'', ''Lihat detail cerita'')] [],
       el ''span'' [] [] (units ''Selengkapnya''),
       el ''i'' [''fas'', ''fa-arrow-right''] [(''aria-hidden'', ''true'')] []])"

definition empty_markup :: "element list" where
  "empty_markup =
     [el ''article'' [''story-card'', ''empty''] [] [],
      el ''div'' [''empty-state''] [] [],
      el ''i'' [''fas'', ''fa-image''] [] [],
      el ''p'' [] [] (units ''No story data available'')]"

text \<open>
  Assigning \<open>innerHTML\<close> replaces the children: the new elements carry no
  listeners.
\<close>

definition set_innerHTML :: "element list \<Rightarrow> card \<Rightarrow> card" where
  "set_innerHTML es c = c\<lparr>innerHTML := es, listeners := []\<rparr>"

definition renderEmpty :: "card \<Rightarrow> card" where
  "renderEmpty c = set_innerHTML empty_markup c"

text \<open>\<open>this.querySelector('.cls')\<close>: the index of the first child of that class.\<close>

fun first_index :: "('a \<Rightarrow> bool) \<Rightarrow> 'a list \<Rightarrow> nat option" where
  "first_index P [] = None"
| "first_index P (x # xs) = (if P x then Some 0 else map_option Suc (first_index P xs))"

definition querySelector :: "string \<Rightarrow> element list \<Rightarrow> nat option" where
  "querySelector cls es = first_index (\<lambda>e. cls \<in> set (classList e)) es"

text \<open>
  \<open>addEventListener\<close> ignores a listener the target already has. The bound
  methods are the same function at every call; the arrow function of the detail
  button is a new one each time.
\<close>

definition addEventListener ::
  "nat \<Rightarrow> string \<Rightarrow> handler \<Rightarrow> (nat \<times> string \<times> handler) list \<Rightarrow> (nat \<times> string \<times> handler) list" where
  "addEventListener i ty h ls =
     (if h \<noteq> DetailClick \<and> (i, ty, h) \<in> set ls then ls else ls @ [(i, ty, h)])"

definition attachEventListeners :: "card \<Rightarrow> card" where
  "attachEventListeners c =
     (let es = innerHTML c;
          l1 = (case querySelector ''btn-location'' es of
                  None \<Rightarrow> listeners c
                | Some i \<Rightarrow> addEventListener i ''click'' HandleLocationClick (listeners c));
          l2 = (case querySelector ''story-image'' es of
                  None \<Rightarrow> l1
                | Some i \<Rightarrow> addEventListener i ''error'' HandleImageError
                              (addEventListener i ''load'' HandleImageLoad l1));
          l3 = (case querySelector ''btn-favorite-modern'' es of
                  None \<Rightarrow> l2
                | Some i \<Rightarrow> addEventListener i ''click'' HandleFavoriteClick l2);
          l4 = (case querySelector ''btn-share-glass'' es of
                  None \<Rightarrow> l3
                | Some i \<Rightarrow> addEventListener i ''click'' HandleShareClick l3);
          l5 = (case querySelector ''btn-view-detail'' es of
                  None \<Rightarrow> l4
                | Some i \<Rightarrow> addEventListener i ''click'' DetailClick l4)
      in c\<lparr>listeners := l5\<rparr>)"

text \<open>
  \<open>render\<close>. The template is evaluated left to right; its only expression that can
  throw is \<open>new Date(createdAt).toISOString()\<close>, which throws a \<open>RangeError\<close> for
  an invalid date, before \<open>innerHTML\<close> is assigned.
\<close>

definition render :: "env \<Rightarrow> card \<Rightarrow> js_error + card" where
  "render env c =
     (case story_data c of
        None \<Rightarrow> Inr (renderEmpty c)
      | Some s \<Rightarrow>
          (let isCompact = compact c;
               isFavorited = isFavorite_of env s
           in case Date_value env (createdAt s) of
                None \<Rightarrow> Inl RangeError
              | Some t \<Rightarrow>
                  Inr (attachEventListeners
                         (set_innerHTML
                            (story_markup env s isCompact isFavorited (Date_toISOString env t)) c))))"

text \<open>
  The setter of \<open>story\<close>. It calls \<open>render\<close> without awaiting it, so a rejection
  of \<open>render\<close> does not reach the caller of the setter.
\<close>

definition unawaited :: "card \<Rightarrow> js_error + card \<Rightarrow> card" where
  "unawaited c r = (case r of Inl e \<Rightarrow> c\<lparr>unhandled := unhandled c @ [e]\<rparr> | Inr c' \<Rightarrow> c')"

definition set_story :: "env \<Rightarrow> story_arg \<Rightarrow> card \<Rightarrow> js_error + card" where
  "set_story env arg c =
     (if \<not> arg_truthy arg then Inr c
      else
        let c1 = c\<lparr>story_data := Some (validateStoryData env (fields_of arg))\<rparr>
        in Inr (unawaited c1 (render env c1)))"

section \<open>StoryCard: handlers\<close>

definition dispatchEvent :: "string \<Rightarrow> detail \<Rightarrow> card \<Rightarrow> card" where
  "dispatchEvent eventName d c = c\<lparr>dispatched := dispatched c @ [(eventName, d)]\<rparr>"

definition toast :: "env \<Rightarrow> nat list \<Rightarrow> string \<Rightarrow> card \<Rightarrow> card" where
  "toast env message kind c =
     (if showToast env then c\<lparr>toasts := toasts c @ [(message, kind)]\<rparr> else c)"

text \<open>\<open>parseFloat(btn.dataset.lat)\<close>: a missing data attribute reads as \<open>undefined\<close>.\<close>

definition dataset_number :: "env \<Rightarrow> element \<Rightarrow> string \<Rightarrow> jsnum" where
  "dataset_number env btn key =
     (case getAttribute btn key of None \<Rightarrow> NaN | Some v \<Rightarrow> parseFloat_string env v)"

definition handleLocationClick :: "env \<Rightarrow> nat \<Rightarrow> card \<Rightarrow> js_error + card" where
  "handleLocationClick env i c =
     (if i \<ge> length (innerHTML c) then Inl TypeError
      else
        let btn = innerHTML c ! i;
            lat' = dataset_number env btn ''data-lat'';
            lon' = dataset_number env btn ''data-lon''
        in if isNaN lat' \<or> isNaN lon' then Inr c
           else Inr (dispatchEvent ''story-location-click'' (LocationDetail (story_data c) lat' lon') c))"

definition update_child :: "nat \<Rightarrow> (element \<Rightarrow> element) \<Rightarrow> card \<Rightarrow> card" where
  "update_child i f c = c\<lparr>innerHTML := (innerHTML c)[i := f (innerHTML c ! i)]\<rparr>"

definition handleImageLoad :: "card \<Rightarrow> card" where
  "handleImageLoad c =
     (let c1 = c\<lparr>imageLoaded := True\<rparr>
      in case querySelector ''story-image'' (innerHTML c1) of
           None \<Rightarrow> c1
         | Some i \<Rightarrow> update_child i (classList_add ''loaded'') c1)"

definition handleImageError :: "card \<Rightarrow> card" where
  "handleImageError c =
     (case querySelector ''story-image'' (innerHTML c) of
        None \<Rightarrow> c
      | Some i \<Rightarrow>
          update_child i
            (\<lambda>img. setAttribute ''alt'' ''Image not available''
                     (setAttribute ''src'' getPlaceholderImage img)) c)"

text \<open>
  \<open>_handleFavoriteClick\<close>. The body of its \<open>try\<close> is \<open>favorite_try\<close>: the call
  of the helper comes first, and the change of the button, the toast and the event
  only follow when the call returned. Reading \<open>this._story.id\<close> of a missing story
  throws inside the \<open>try\<close> too.
\<close>

definition favorite_try :: "env \<Rightarrow> idb_helper \<Rightarrow> nat \<Rightarrow> bool \<Rightarrow> card \<Rightarrow> js_error + card" where
  "favorite_try env h i isFavorited c =
     (if isFavorited then
        (case story_data c of
           None \<Rightarrow> Inl TypeError
         | Some s \<Rightarrow>
             (case removeFromFavorites h (story_id s) of
                Inl e \<Rightarrow> Inl e
              | Inr u \<Rightarrow>
                  Inr (dispatchEvent ''story-favorite-toggle'' (FavoriteDetail (story_data c) (\<not> isFavorited))
                        (toast env (units ''Dihapus dari favorit'') ''info''
                          (update_child i
                             (\<lambda>btn. setAttribute ''title'' ''Tambah ke favorit''
                                      (setAttribute ''aria-label'' ''Tambah ke favorit''
                                        (classList_remove ''active'' btn))) c)))))
      else
        (case addToFavorites h (story_data c) of
           Inl e \<Rightarrow> Inl e
         | Inr u \<Rightarrow>
             Inr (dispatchEvent ''story-favorite-toggle'' (FavoriteDetail (story_data c) (\<not> isFavorited))
                   (toast env (check_mark @ units '' Ditambahkan ke favorit'') ''success''
                     (update_child i
                        (\<lambda>btn. setAttribute ''title'' ''Hapus dari favorit''
                                 (setAttribute ''aria-label'' ''Hapus dari favorit''
                                   (classList_add ''active'' btn))) c)))))"

definition handleFavoriteClick :: "env \<Rightarrow> nat \<Rightarrow> card \<Rightarrow> js_error + card" where
  "handleFavoriteClick env i c =
     (if i \<ge> length (innerHTML c) then Inl TypeError
      else
        let btn = innerHTML c ! i;
            isFavorited = classList_contains btn ''active''
        in case indexedDBHelper env of
             None \<Rightarrow> Inr c
           | Some h \<Rightarrow>
               (case favorite_try env h i isFavorited c of
                  Inr c' \<Rightarrow> Inr c'
                | Inl error \<Rightarrow> Inr (toast env (units ''Gagal mengubah favorit'') ''error'' c)))"

text \<open>
  \<open>_handleShareClick\<close>. Building \<open>shareData\<close> reads \<open>this._story.name\<close> outside
  any \<open>try\<close>. Both branches catch what the collaborator throws; without
  \<open>navigator.clipboard\<close> the call throws a \<open>TypeError\<close> inside its \<open>try\<close>. The
  event is dispatched after either branch.
\<close>

definition handleShareClick :: "env \<Rightarrow> card \<Rightarrow> js_error + card" where
  "handleShareClick env c =
     (case story_data c of
        None \<Rightarrow> Inl TypeError
      | Some s \<Rightarrow>
          (let shareData = \<lparr>sd_title = name s, sd_text = description s, sd_url = location_href env\<rparr>;
               c1 = (case navigator_share env of
                       Some share \<Rightarrow> (case share shareData of Inr u \<Rightarrow> c | Inl error \<Rightarrow> c)
                     | None \<Rightarrow>
                         (case (case clipboard_writeText env of
                                  None \<Rightarrow> Inl TypeError
                                | Some writeText \<Rightarrow> writeText (location_href env)) of
                            Inr u \<Rightarrow> toast env (check_mark @ units '' Link disalin ke clipboard'') ''success'' c
                          | Inl error \<Rightarrow> toast env (units ''Gagal menyalin link'') ''error'' c))
           in Inr (dispatchEvent ''story-share-click'' (StoryDetail (story_data c1)) c1)))"

text \<open>
  A click on child \<open>i\<close> runs the click listeners of that child in the order they
  were added. What a listener throws is reported and does not stop the others.
\<close>

fun run_handler :: "env \<Rightarrow> handler \<Rightarrow> nat \<Rightarrow> card \<Rightarrow> js_error + card" where
  "run_handler env HandleLocationClick i c = handleLocationClick env i c"
| "run_handler env HandleImageLoad i c = Inr (handleImageLoad c)"
| "run_handler env HandleImageError i c = Inr (handleImageError c)"
| "run_handler env HandleFavoriteClick i c = handleFavoriteClick env i c"
| "run_handler env HandleShareClick i c = handleShareClick env c"
| "run_handler env DetailClick i c =
     Inr (dispatchEvent ''story-detail-click'' (StoryDetail (story_data c)) c)"

fun dispatch_to :: "env \<Rightarrow> nat \<Rightarrow> string \<Rightarrow> (nat \<times> string \<times> handler) list \<Rightarrow> card \<Rightarrow> card" where
  "dispatch_to env i ty [] c = c"
| "dispatch_to env i ty ((j, ty', h) # ls) c =
     dispatch_to env i ty ls
       (if j = i \<and> ty' = ty then unawaited c (run_handler env h i c) else c)"

definition click :: "env \<Rightarrow> nat \<Rightarrow> card \<Rightarrow> card" where
  "click env i c = dispatch_to env i ''click'' (listeners c) c"

section \<open>A sample environment and sample stories\<close>

text \<open>
  An environment given by the results of the built-ins at a few arguments: the two
  coordinates \<open>12.3\<close> and \<open>45.6\<close>, one valid date string, and a storage helper
  whose writes fail.
\<close>

definition failing_helper :: idb_helper where
  "failing_helper =
     \<lparr>isFavorite = (\<lambda>i. Inr False),
      addToFavorites = (\<lambda>s. Inl (NamedError ''QuotaExceededError'')),
      removeFromFavorites = (\<lambda>i. Inl (NamedError ''TransactionInactiveError''))\<rparr>"

definition sample_env :: env where
  "sample_env =
     \<lparr>parseFloat_string =
        (\<lambda>s. if s = ''12.3'' then Finite (123 / 10)
             else if s = ''45.6'' then Finite (456 / 10) else NaN),
      Number_toString =
        (\<lambda>n. if n = Finite (123 / 10) then ''12.3''
             else if n = Finite (456 / 10) then ''45.6'' else ''NaN''),
      Date_value = (\<lambda>v. if v = JStr ''2024-01-01T00:00:00.000Z'' then Some 1704067200000 else None),
      Date_toISOString = (\<lambda>t. ''2024-01-01T00:00:00.000Z''),
      Date_toLocaleDateString = (\<lambda>t. ''1 Januari 2024 pukul 07.00''),
      now = 1704067260000,
      generated_id = ''story-1704067260000-k3j9x0q2a'',
      indexedDBHelper = Some failing_helper,
      showToast = True,
      navigator_share = None,
      clipboard_writeText = None,
      location_href = ''https://example.com/#/''\<rparr>"

text \<open>
  The story of the example scenario; a located story with a valid date and a photo; a
  second record with the coordinates swapped and the scenario's invalid date; a third
  record without usable coordinates and with the invalid date.
\<close>

definition scenario_story :: raw_story where
  "scenario_story =
     \<lparr>raw_id = JStr ''1'', raw_name = JStr ''<script>'', raw_photoUrl = JUndefined,
      raw_description = JUndefined, raw_createdAt = JStr ''invalid'', raw_lat = JStr ''12.3'',
      raw_lon = JStr ''45.6'', raw_author = JUndefined\<rparr>"

definition dated_story :: raw_story where
  "dated_story =
     scenario_story\<lparr>raw_createdAt := JStr ''2024-01-01T00:00:00.000Z'',
       raw_photoUrl := JStr ''https://example.com/photo.jpg''\<rparr>"

definition swapped_story :: raw_story where
  "swapped_story =
     scenario_story\<lparr>raw_id := JStr ''2'', raw_name := JStr ''Pantai'',
       raw_lat := JStr ''45.6'', raw_lon := JStr ''12.3''\<rparr>"

definition unlocated_story :: raw_story where
  "unlocated_story =
     scenario_story\<lparr>raw_id := JStr ''3'', raw_name := JStr ''Gunung'',
       raw_lat := JUndefined, raw_lon := JStr ''north''\<rparr>"

section \<open>Navbar: properties\<close>

lemma getAttribute_classList_toggle [simp]:
  "getAttribute (classList_toggle c b e) n = getAttribute e n"
  by (simp add: classList_toggle_def classList_add_def classList_remove_def getAttribute_def)

lemma classList_contains_toggle [simp]:
  "classList_contains (classList_toggle c b e) c = b"
  by (simp add: classList_toggle_def classList_add_def classList_remove_def classList_contains_def)

lemma classList_setAttribute [simp]:
  "classList_contains (setAttribute n v e) c = classList_contains e c"
  by (simp add: setAttribute_def classList_contains_def)

lemma classList_removeAttribute [simp]:
  "classList_contains (removeAttribute n e) c = classList_contains e c"
  by (simp add: removeAttribute_def classList_contains_def)

lemma map_of_alist_set: "map_of (alist_set n v kvs) = (map_of kvs)(n \<mapsto> v)"
  by (induction kvs) (auto simp: fun_eq_iff)

lemma getAttribute_setAttribute [simp]:
  "getAttribute (setAttribute n v e) m = (if m = n then Some v else getAttribute e m)"
  by (simp add: setAttribute_def getAttribute_def map_of_alist_set)

lemma map_of_filter_key:
  "map_of (filter (\<lambda>kv. fst kv \<noteq> n) kvs) m = (if m = n then None else map_of kvs m)"
  by (induction kvs) auto

lemma getAttribute_removeAttribute [simp]:
  "getAttribute (removeAttribute n e) m = (if m = n then None else getAttribute e m)"
  by (simp add: removeAttribute_def getAttribute_def map_of_filter_key)

lemma update_link_active:
  "getAttribute e ''href'' = Some h \<Longrightarrow>
   classList_contains (update_link c e) ''active'' = isActive c h"
  by (simp add: update_link_def Let_def)

lemma update_link_href:
  "getAttribute (update_link c e) ''href'' = getAttribute e ''href''"
  by (simp add: update_link_def Let_def split: option.splits)

lemma startsWith_root: "startsWith ''#/'' h \<longleftrightarrow> h = [] \<or> h = ''#'' \<or> h = ''#/''"
proof (cases h)
  case Nil
  then show ?thesis by (simp add: startsWith_def)
next
  case (Cons a t)
  note h1 = Cons
  show ?thesis
  proof (cases t)
    case Nil
    with h1 show ?thesis by (auto simp: startsWith_def)
  next
    case (Cons b u)
    with h1 show ?thesis by (cases u) (auto simp: startsWith_def)
  qed
qed

lemma isActive_root: "startsWith h ''#'' \<Longrightarrow> isActive ''#/'' h \<longleftrightarrow> h = ''#/'' \<or> h = ''#''"
  by (auto simp: isActive_def startsWith_root) (simp add: startsWith_def)

text \<open>
  C6, as stated: with the hash \<open>#/\<close> only a link whose href is \<open>#/\<close> is marked
  active. A menu holding a link with href \<open>#\<close> refutes it: \<open>#\<close> is a prefix of
  \<open>#/\<close> and is not the root, so the prefix rule marks it active.
\<close>

theorem C6_root_only_counterexample:
  "updateActiveLink ''#/'' (Some [nav_link ''#/'', nav_link ''#'']) =
     Some [el ''a'' [''active''] [(''href'', ''#/''), (''aria-current'', ''page'')] [],
           el ''a'' [''active''] [(''href'', ''#''), (''aria-current'', ''page'')] []]"
  by (simp add: updateActiveLink_def currentHash_of_def is_hash_link_def nav_link_def el_def
      update_link_def isActive_def startsWith_def getAttribute_def classList_toggle_def
      classList_add_def setAttribute_def Let_def)

text \<open>
  C6, amended: for every menu, after \<open>_updateActiveLink\<close> with the hash \<open>#/\<close> a
  selected link is active exactly when its href is \<open>#/\<close> or \<open>#\<close>; with the
  hash \<open>#/about\<close> a link with href \<open>#/about\<close> is active and a link with href
  \<open>#/\<close> is not. The update keeps the number of elements and every href.
\<close>

theorem C6_active_link:
  assumes "i < length es" and "is_hash_link (es ! i)" and "getAttribute (es ! i) ''href'' = Some h"
  shows "\<exists>r a. updateActiveLink ''#/'' (Some es) = Some r \<and>
           updateActiveLink ''#/about'' (Some es) = Some a \<and>
           length r = length es \<and> length a = length es \<and>
           getAttribute (r ! i) ''href'' = Some h \<and> getAttribute (a ! i) ''href'' = Some h \<and>
           (classList_contains (r ! i) ''active'' \<longleftrightarrow> h = ''#/'' \<or> h = ''#'') \<and>
           (h = ''#/about'' \<longrightarrow> classList_contains (a ! i) ''active'') \<and>
           (h = ''#/'' \<longrightarrow> \<not> classList_contains (a ! i) ''active'')"
proof -
  from assms(2,3) have sw: "startsWith h ''#''"
    by (simp add: is_hash_link_def)
  have root: "classList_contains (update_link ''#/'' (es ! i)) ''active'' \<longleftrightarrow> h = ''#/'' \<or> h = ''#''"
    using assms(3) sw by (simp add: update_link_active isActive_root)
  have about1: "h = ''#/about'' \<longrightarrow> classList_contains (update_link ''#/about'' (es ! i)) ''active''"
    using assms(3) by (simp add: update_link_active isActive_def)
  have about2: "h = ''#/'' \<longrightarrow> \<not> classList_contains (update_link ''#/about'' (es ! i)) ''active''"
    using assms(3) by (simp add: update_link_active isActive_def)
  show ?thesis
    using assms root about1 about2
    by (simp add: updateActiveLink_def currentHash_of_def update_link_href)
qed

theorem C6_active_link_witness:
  "1 < length [nav_link ''#/'', nav_link ''#'', nav_link ''#/about''] \<and>
   is_hash_link ([nav_link ''#/'', nav_link ''#'', nav_link ''#/about''] ! 1) \<and>
   getAttribute ([nav_link ''#/'', nav_link ''#'', nav_link ''#/about''] ! 1) ''href'' = Some ''#'' \<and>
   (\<exists>r a. updateActiveLink ''#/'' (Some [nav_link ''#/'', nav_link ''#'', nav_link ''#/about'']) = Some r \<and>
      updateActiveLink ''#/about'' (Some [nav_link ''#/'', nav_link ''#'', nav_link ''#/about'']) = Some a \<and>
      classList_contains (r ! 1) ''active'' \<and> getAttribute (a ! 1) ''href'' = Some ''#'')"
proof -
  have h1: "1 < length [nav_link ''#/'', nav_link ''#'', nav_link ''#/about'']" by simp
  have h2: "is_hash_link ([nav_link ''#/'', nav_link ''#'', nav_link ''#/about''] ! 1)"
    by (simp add: is_hash_link_def nav_link_def el_def getAttribute_def startsWith_def)
  have h3: "getAttribute ([nav_link ''#/'', nav_link ''#'', nav_link ''#/about''] ! 1) ''href'' = Some ''#''"
    by (simp add: nav_link_def el_def getAttribute_def)
  from C6_active_link [OF h1 h2 h3] h1 h2 h3 show ?thesis by blast
qed

section \<open>LoginView and RegisterView: properties\<close>

lemma getElementById_found_alertContainer:
  "main_markup pg \<noteq> NoMarkup \<Longrightarrow> getElementById_found pg ''alertContainer''"
  by (cases "main_markup pg") (simp_all add: getElementById_found_def)




text \<open>
  The LoginView half of C8 holds: without a presenter the submit listener does not
  throw, calls no presenter callback and shows the alert \<open>Terjadi kesalahan sistem\<close>.
\<close>

lemma login_submit_without_presenter:
  assumes "main_markup pg = LoginMarkup" and "submit_bound pg" and "\<not> login_presenter pg"
  shows "submit_login_form pg =
           Inr (pg\<lparr>alerts := (case alerts pg of [] \<Rightarrow> [] | a # as \<Rightarrow> as) @
                      [(''alert alert-danger'', ''Terjadi kesalahan sistem'')]\<rparr>)"
  using assms
  by (simp add: submit_login_form_def login_on_submit_def LoginView_showAlert_def
      show_alert_with_def getElementById_found_alertContainer)

text \<open>
  C8 at the RegisterView: the view is constructed and rendered with no presenter set,
  the user fills the form in and submits. The listener does not throw and calls no
  presenter callback, and no alert is shown: the page is as it was before the submit.
\<close>

theorem C8_register_submit_without_presenter:
  "map_sum id (\<lambda>pg. (alerts pg, presenter_calls pg))
     (then_do (RegisterView_render (RegisterView_new blank_page))
        (submit_register_form \<circ> type_register ''Ana'' ''ana@example.com'' ''password1''))
   = Inr ([], [])"
  by (simp add: then_do_def RegisterView_render_def RegisterView_new_def blank_page_def
      set_main_markup_def RegisterView_injectStyles_def getElementById_found_def appendStyle_def
      RegisterView_initListeners_def submit_register_form_def register_on_submit_def
      type_register_def email_value_of_def strip_newlines_def is_ascii_whitespace_def Let_def)

section \<open>Style injection: properties\<close>

lemma head_styles_set_main_markup [simp]: "head_styles (set_main_markup m pg) = head_styles pg"
  by (simp add: set_main_markup_def)

lemma guarded_append_distinct:
  "distinct (head_styles pg) \<Longrightarrow> \<not> getElementById_found pg i \<Longrightarrow>
   distinct (head_styles (appendStyle i pg))"
  by (simp add: appendStyle_def getElementById_found_def)

lemma Footer_addStyles_distinct:
  "distinct (head_styles pg) \<Longrightarrow> distinct (head_styles (Footer_addStyles pg))"
  by (simp add: Footer_addStyles_def guarded_append_distinct)

lemma Footer_render_distinct:
  "distinct (head_styles pg) \<Longrightarrow> distinct (head_styles (Footer_render pg))"
  by (simp add: Footer_render_def Footer_addStyles_distinct)

lemma Navbar_addScrollStyles_distinct:
  "distinct (head_styles pg) \<Longrightarrow> distinct (head_styles (Navbar_addScrollStyles pg))"
  by (simp add: Navbar_addScrollStyles_def guarded_append_distinct)

lemma StoryCard_addStyles_distinct:
  "distinct (head_styles pg) \<Longrightarrow> distinct (head_styles (StoryCard_addStyles pg))"
  by (simp add: StoryCard_addStyles_def guarded_append_distinct)

lemma LoginView_render_distinct:
  assumes "distinct (head_styles pg)" and "LoginView_render pg = Inr pg'"
  shows "distinct (head_styles pg')"
proof -
  let ?pg1 = "set_main_markup LoginMarkup pg"
  have d1: "distinct (head_styles ?pg1)" using assms(1) by simp
  have "distinct (head_styles (if \<not> getElementById_found ?pg1 ''appleAuthStyles''
                   then LoginView_addAuthStyles ?pg1 else ?pg1))"
    using d1 by (simp add: LoginView_addAuthStyles_def guarded_append_distinct)
  then show ?thesis
    using assms(2)
    by (auto simp: LoginView_render_def LoginView_initListeners_def Let_def split: if_splits)
qed

lemma RegisterView_render_distinct:
  assumes "distinct (head_styles pg)" and "RegisterView_render pg = Inr pg'"
  shows "distinct (head_styles pg')"
proof -
  let ?pg1 = "set_main_markup RegisterMarkup pg"
  have "distinct (head_styles (RegisterView_injectStyles ?pg1))"
    using assms(1) by (simp add: RegisterView_injectStyles_def guarded_append_distinct)
  then show ?thesis
    using assms(2)
    by (auto simp: RegisterView_render_def RegisterView_initListeners_def split: if_splits)
qed

lemma apply_op_distinct:
  "distinct (head_styles pg) \<Longrightarrow> distinct (head_styles (apply_op x pg))"
proof (cases x)
  case LoginRender
  then show "distinct (head_styles pg) \<Longrightarrow> ?thesis"
    by (auto split: sum.splits dest: LoginView_render_distinct)
next
  case RegisterRender
  then show "distinct (head_styles pg) \<Longrightarrow> ?thesis"
    by (auto split: sum.splits dest: RegisterView_render_distinct)
qed (simp_all add: Footer_new_def Footer_render_distinct Navbar_addScrollStyles_distinct
      StoryCard_addStyles_distinct LoginView_new_def RegisterView_new_def)

text \<open>
  C7: whatever sequence of constructions, script loads and render calls runs, the
  style elements appended to the document head have pairwise different ids: no id is
  injected twice. Every injection path checks \<open>getElementById\<close> for its id first.
\<close>

theorem C7_styles_injected_once:
  "distinct (head_styles pg) \<Longrightarrow> distinct (head_styles (run_ops ops pg))"
proof (induction ops arbitrary: pg)
  case Nil
  then show ?case by simp
next
  case (Cons x xs)
  from Cons.prems have "distinct (head_styles (apply_op x pg))"
    by (rule apply_op_distinct)
  then show ?case by (simp add: Cons.IH)
qed

theorem C7_styles_injected_once_witness:
  "distinct (head_styles blank_page) \<and>
   distinct (head_styles (run_ops
     [NewFooter, FooterRender, LoadNavbar, LoadNavbar, StoryCardConnected, StoryCardConnected,
      NewLoginView, LoginRender, LoginRender, NewRegisterView, RegisterRender, RegisterRender,
      LoginRender] blank_page)) \<and>
   head_styles (run_ops
     [NewFooter, FooterRender, LoadNavbar, LoadNavbar, StoryCardConnected, StoryCardConnected,
      NewLoginView, LoginRender, LoginRender, NewRegisterView, RegisterRender, RegisterRender,
      LoginRender] blank_page)
   = [''darkNavyFooter'', ''navbarScrollStyles'', ''story-card-styles'', ''appleAuthStyles'',
      ''registerStyles'']"
proof -
  have h: "distinct (head_styles blank_page)" by (simp add: blank_page_def)
  have r: "head_styles (run_ops
     [NewFooter, FooterRender, LoadNavbar, LoadNavbar, StoryCardConnected, StoryCardConnected,
      NewLoginView, LoginRender, LoginRender, NewRegisterView, RegisterRender, RegisterRender,
      LoginRender] blank_page)
   = [''darkNavyFooter'', ''navbarScrollStyles'', ''story-card-styles'', ''appleAuthStyles'',
      ''registerStyles'']"
    by (simp add: blank_page_def Footer_new_def Footer_render_def Footer_addStyles_def
        Navbar_addScrollStyles_def StoryCard_addStyles_def LoginView_new_def LoginView_render_def
        RegisterView_new_def RegisterView_render_def RegisterView_injectStyles_def
        RegisterView_initListeners_def LoginView_initListeners_def LoginView_addAuthStyles_def
        set_main_markup_def getElementById_found_def appendStyle_def Let_def)
  from C7_styles_injected_once [OF h] h r show ?thesis by simp
qed

section \<open>StoryCard: properties\<close>

lemma validateCoordinate_None: "validateCoordinate env v = None \<longleftrightarrow> parseFloat env v = NaN"
  by (simp add: validateCoordinate_def isNaN_def Let_def)

lemma validateCoordinate_Some:
  "validateCoordinate env v = Some n \<longleftrightarrow> parseFloat env v = n \<and> n \<noteq> NaN"
  by (auto simp: validateCoordinate_def isNaN_def Let_def)

lemma innerHTML_attachEventListeners [simp]: "innerHTML (attachEventListeners c) = innerHTML c"
  by (simp add: attachEventListeners_def Let_def)

lemma story_data_attachEventListeners [simp]: "story_data (attachEventListeners c) = story_data c"
  by (simp add: attachEventListeners_def Let_def)

lemma dispatched_attachEventListeners [simp]: "dispatched (attachEventListeners c) = dispatched c"
  by (simp add: attachEventListeners_def Let_def)

lemma innerHTML_set_innerHTML [simp]: "innerHTML (set_innerHTML es c) = es"
  by (simp add: set_innerHTML_def)

lemma story_data_set_innerHTML [simp]: "story_data (set_innerHTML es c) = story_data c"
  by (simp add: set_innerHTML_def)

lemma dispatched_set_innerHTML [simp]: "dispatched (set_innerHTML es c) = dispatched c"
  by (simp add: set_innerHTML_def)

lemma unhandled_attachEventListeners [simp]: "unhandled (attachEventListeners c) = unhandled c"
  by (simp add: attachEventListeners_def Let_def)

lemma unhandled_set_innerHTML [simp]: "unhandled (set_innerHTML es c) = unhandled c"
  by (simp add: set_innerHTML_def)

subsection \<open>What render writes and binds\<close>

lemma render_story:
  "story_data c = Some s \<Longrightarrow> Date_value env (createdAt s) = Some t \<Longrightarrow>
   render env c = Inr (attachEventListeners (set_innerHTML
     (story_markup env s (compact c) (isFavorite_of env s) (Date_toISOString env t)) c))"
  by (simp add: render_def Let_def)

lemma set_story_object:
  "Date_value env (createdAt (validateStoryData env r)) = Some t \<Longrightarrow>
   set_story env (Object r) c =
     Inr (attachEventListeners (set_innerHTML
       (story_markup env (validateStoryData env r) (compact c)
          (isFavorite_of env (validateStoryData env r)) (Date_toISOString env t))
       (c\<lparr>story_data := Some (validateStoryData env r)\<rparr>)))"
  by (simp add: set_story_def render_story unawaited_def Let_def)

lemma listeners_located:
  assumes "lat s = Some la" and "lon s = Some lo"
  shows "listeners (attachEventListeners (set_innerHTML (story_markup env s k f ds) c)) =
     [(22, ''click'', HandleLocationClick), (2, ''load'', HandleImageLoad),
      (2, ''error'', HandleImageError), (25, ''click'', DetailClick)]"
  using assms
  by (simp add: attachEventListeners_def set_innerHTML_def querySelector_def story_markup_def
      el_def addEventListener_def Let_def)

lemma listeners_unlocated:
  assumes "lat s = None \<or> lon s = None"
  shows "listeners (attachEventListeners (set_innerHTML (story_markup env s k f ds) c)) =
     [(2, ''load'', HandleImageLoad), (2, ''error'', HandleImageError), (22, ''click'', DetailClick)]"
  using assms
  by (auto simp: attachEventListeners_def set_innerHTML_def querySelector_def story_markup_def
      el_def addEventListener_def Let_def)

lemma listeners_rendered:
  "listeners (attachEventListeners (set_innerHTML (story_markup env s k f ds) c)) =
     (if lat s \<noteq> None \<and> lon s \<noteq> None
      then [(22, ''click'', HandleLocationClick), (2, ''load'', HandleImageLoad),
            (2, ''error'', HandleImageError), (25, ''click'', DetailClick)]
      else [(2, ''load'', HandleImageLoad), (2, ''error'', HandleImageError),
            (22, ''click'', DetailClick)])"
  using listeners_located [of s _ _ env k f ds c] listeners_unlocated [of s env k f ds c]
  by (cases "lat s"; cases "lon s") simp_all

lemma favorite_and_share_buttons:
  "querySelector ''btn-favorite'' (story_markup env s k f ds) = Some 4"
  "querySelector ''btn-share'' (story_markup env s k f ds) = Some 6"
  by (simp_all add: querySelector_def story_markup_def el_def Let_def)

lemma location_button:
  assumes "lat s = Some la" and "lon s = Some lo"
  shows "story_markup env s k f ds ! 22 =
           el ''button'' [''btn-location'']
             [(''data-lat'', Number_toString env la), (''data-lon'', Number_toString env lo),
              (''aria-label'', ''Lihat lokasi di peta'')] []"
    and "\<not> length (story_markup env s k f ds) \<le> 22"
    and "querySelector ''btn-location'' (story_markup env s k f ds) = Some 22"
  using assms
  by (simp_all add: story_markup_def coordinate_text_def querySelector_def el_def Let_def)

subsection \<open>The four interactions\<close>

text \<open>
  C1 fails for two of the four interactions. \<open>render\<close> writes the favorite and share
  buttons with the classes \<open>btn-favorite\<close> and \<open>btn-share\<close>, and
  \<open>_attachEventListeners\<close> looks for \<open>.btn-favorite-modern\<close> and
  \<open>.btn-share-glass\<close>: neither button gets a listener. For every rendered story, a
  click on the favorite button (child 4) or on the share button (child 6) leaves the
  card as it is and dispatches no event.
\<close>

theorem C1_favorite_and_share_clicks_do_nothing:
  assumes "story_data c = Some s" and "Date_value env (createdAt s) = Some t"
  shows "\<exists>c'. render env c = Inr c' \<and>
           querySelector ''btn-favorite'' (innerHTML c') = Some 4 \<and>
           querySelector ''btn-share'' (innerHTML c') = Some 6 \<and>
           click env 4 c' = c' \<and> click env 6 c' = c'"
  using assms
  by (simp add: render_story favorite_and_share_buttons click_def listeners_rendered)

lemma sample_dated_story:
  "createdAt (validateStoryData sample_env dated_story) = JStr ''2024-01-01T00:00:00.000Z''"
  "Date_value sample_env (JStr ''2024-01-01T00:00:00.000Z'') = Some 1704067200000"
  "lat (validateStoryData sample_env dated_story) = Some (Finite (123 / 10))"
  "lon (validateStoryData sample_env dated_story) = Some (Finite (456 / 10))"
  by (simp_all add: validateStoryData_def dated_story_def scenario_story_def or_else_def
      sample_env_def validateCoordinate_def isNaN_def Let_def)

theorem C1_favorite_and_share_clicks_do_nothing_witness:
  "story_data (new_card\<lparr>story_data := Some (validateStoryData sample_env dated_story)\<rparr>) =
     Some (validateStoryData sample_env dated_story) \<and>
   Date_value sample_env (createdAt (validateStoryData sample_env dated_story)) = Some 1704067200000 \<and>
   (\<exists>c'. render sample_env (new_card\<lparr>story_data := Some (validateStoryData sample_env dated_story)\<rparr>) = Inr c' \<and>
      querySelector ''btn-favorite'' (innerHTML c') = Some 4 \<and>
      querySelector ''btn-share'' (innerHTML c') = Some 6 \<and>
      click sample_env 4 c' = c' \<and> click sample_env 6 c' = c')"
proof -
  have h1: "story_data (new_card\<lparr>story_data := Some (validateStoryData sample_env dated_story)\<rparr>) =
     Some (validateStoryData sample_env dated_story)"
    by simp
  have h2: "Date_value sample_env (createdAt (validateStoryData sample_env dated_story)) =
     Some 1704067200000"
    by (simp add: sample_dated_story)
  from C1_favorite_and_share_clicks_do_nothing [OF h1 h2] h1 h2 show ?thesis by blast
qed

text \<open>The detail button is bound: a click on it dispatches \<open>story-detail-click\<close>.\<close>

lemma detail_button:
  "querySelector ''btn-view-detail'' (story_markup env s k f ds) =
     (if lat s \<noteq> None \<and> lon s \<noteq> None then Some 25 else Some 22)"
  by (simp add: querySelector_def story_markup_def el_def Let_def)

lemma detail_click_dispatches:
  assumes "story_data c = Some s" and "Date_value env (createdAt s) = Some t"
  shows "\<exists>c' i. render env c = Inr c' \<and>
           querySelector ''btn-view-detail'' (innerHTML c') = Some i \<and>
           dispatched (click env i c') = dispatched c @ [(''story-detail-click'', StoryDetail (Some s))]"
  using assms
  by (simp add: render_story detail_button click_def listeners_rendered dispatchEvent_def
      unawaited_def)

subsection \<open>The example scenario\<close>

lemma scenario_validated:
  "name (validateStoryData env scenario_story) = ''&lt;script&gt;''"
  "createdAt (validateStoryData env scenario_story) = JStr ''invalid''"
  by (simp_all add: validateStoryData_def scenario_story_def or_else_def sanitizeHTML_def
      escape_char_def)

text \<open>
  The text that \<open>_formatRelativeTime\<close> gives an invalid date is \<open>Baru saja\<close>: only
  \<open>_formatDate\<close>, which fills the title attribute, answers \<open>Invalid Date\<close>.
\<close>

lemma formatRelativeTime_invalid:
  "Date_value env d = None \<Longrightarrow> formatRelativeTime env d = ''Baru saja''"
  by (simp add: formatRelativeTime_def nan_gt_def Let_def)

lemma formatDate_invalid: "Date_value env d = None \<Longrightarrow> formatDate env d = ''Invalid Date''"
  by (simp add: formatDate_def)

text \<open>
  C2 fails on the scenario's own story. Its name is escaped by validation, but
  \<open>render\<close> evaluates \<open>new Date("invalid").toISOString()\<close> for the \<open>datetime\<close>
  attribute, which throws a \<open>RangeError\<close> before any markup is written: the render
  is rejected, and the setter leaves the card's children as they were, with no
  location button.
\<close>

theorem C2_scenario_render_throws:
  assumes "Date_value env (JStr ''invalid'') = None"
  shows "render env (c\<lparr>story_data := Some (validateStoryData env scenario_story)\<rparr>) = Inl RangeError \<and>
         set_story env (Object scenario_story) c =
           Inr (c\<lparr>story_data := Some (validateStoryData env scenario_story),
                   unhandled := unhandled c @ [RangeError]\<rparr>)"
  using assms by (simp add: render_def set_story_def unawaited_def scenario_validated Let_def)

theorem C2_scenario_render_throws_witness:
  "Date_value sample_env (JStr ''invalid'') = None \<and>
   render sample_env (new_card\<lparr>story_data := Some (validateStoryData sample_env scenario_story)\<rparr>)
     = Inl RangeError \<and>
   map_sum id innerHTML (set_story sample_env (Object scenario_story) new_card) = Inr []"
proof -
  have h: "Date_value sample_env (JStr ''invalid'') = None"
    by (simp add: sample_env_def)
  from C2_scenario_render_throws [OF h, of new_card] h show ?thesis
    by (simp add: new_card_def)
qed

subsection \<open>A render that throws leaves the previous story on the card\<close>

lemma set_story_rejected:
  "Date_value env (createdAt (validateStoryData env r)) = None \<Longrightarrow>
   set_story env (Object r) c =
     Inr (c\<lparr>story_data := Some (validateStoryData env r), unhandled := unhandled c @ [RangeError]\<rparr>)"
  by (simp add: set_story_def render_def unawaited_def Let_def)

lemma sample_invalid_dates:
  "Date_value sample_env (createdAt (validateStoryData sample_env unlocated_story)) = None"
  "Date_value sample_env (createdAt (validateStoryData sample_env swapped_story)) = None"
  by (simp_all add: validateStoryData_def unlocated_story_def swapped_story_def scenario_story_def
      or_else_def sample_env_def)

lemma sample_coordinates:
  "lat (validateStoryData sample_env unlocated_story) = None"
  "lon (validateStoryData sample_env unlocated_story) = None"
  "lat (validateStoryData sample_env swapped_story) = Some (Finite (456 / 10))"
  "lon (validateStoryData sample_env swapped_story) = Some (Finite (123 / 10))"
  by (simp_all add: validateStoryData_def unlocated_story_def swapped_story_def scenario_story_def
      sample_env_def validateCoordinate_def isNaN_def Let_def)

lemma no_location_class:
  assumes "lat s = Some la" and "lon s = Some lo"
  shows "querySelector ''no-location'' (story_markup env s k f ds) = None"
  using assms by (simp add: story_markup_def querySelector_def el_def Let_def)

text \<open>
  C4 fails on a record without usable coordinates whose date is invalid. A card
  shows the located story; the record \<open>unlocated_story\<close> is assigned, with no
  \<open>lat\<close>, a \<open>lon\<close> that is no number, and the date \<open>invalid\<close>. The setter
  stores the record with both coordinates \<open>null\<close>, and \<open>render\<close> throws its
  \<open>RangeError\<close> before it writes: the card still holds the map button (child 22)
  and holds no element of class \<open>no-location\<close>.
\<close>

theorem C4_unlocated_story_keeps_map_button:
  "map_sum id
     (\<lambda>c. (map_option lat (story_data c), map_option lon (story_data c),
           querySelector ''btn-location'' (innerHTML c),
           querySelector ''no-location'' (innerHTML c), unhandled c))
     (then_do (set_story sample_env (Object dated_story) new_card)
        (set_story sample_env (Object unlocated_story)))
   = Inr (Some None, Some None, Some 22, None, [RangeError])"
proof -
  have t: "Date_value sample_env (createdAt (validateStoryData sample_env dated_story)) =
      Some 1704067200000"
    by (simp add: sample_dated_story)
  show ?thesis
    by (simp add: then_do_def set_story_object [OF t] set_story_rejected sample_invalid_dates
        sample_coordinates new_card_def
        location_button(3) [OF sample_dated_story(3) sample_dated_story(4)]
        no_location_class [OF sample_dated_story(3) sample_dated_story(4)])
qed

text \<open>
  C5 fails on a story with numeric coordinates whose date is invalid. A card shows
  the located story, with the coordinates 12.3 and 45.6; the record
  \<open>swapped_story\<close> is assigned, with the coordinates 45.6 and 12.3 and the date
  \<open>invalid\<close>. The setter stores it, and \<open>render\<close> throws before it writes, so
  the button of the first story stays with its listener. A click on it dispatches
  \<open>story-location-click\<close> with the second story and the numbers 12.3 and 45.6 of
  the first.
\<close>

theorem C5_stale_button_dispatches_old_numbers:
  "map_sum id
     (\<lambda>c. (map_option lat (story_data c), map_option lon (story_data c),
           querySelector ''btn-location'' (innerHTML c), dispatched (click sample_env 22 c)))
     (then_do (set_story sample_env (Object dated_story) new_card)
        (set_story sample_env (Object swapped_story)))
   = Inr (Some (Some (Finite (456 / 10))), Some (Some (Finite (123 / 10))), Some 22,
          [(''story-location-click'',
            LocationDetail (Some (validateStoryData sample_env swapped_story))
              (Finite (123 / 10)) (Finite (456 / 10)))])"
proof -
  have t: "Date_value sample_env (createdAt (validateStoryData sample_env dated_story)) =
      Some 1704067200000"
    by (simp add: sample_dated_story)
  have p: "parseFloat_string sample_env (Number_toString sample_env (Finite (123 / 10))) =
      Finite (123 / 10)"
      "parseFloat_string sample_env (Number_toString sample_env (Finite (456 / 10))) =
      Finite (456 / 10)"
    by (simp_all add: sample_env_def)
  show ?thesis
    by (simp add: then_do_def set_story_object [OF t] set_story_rejected sample_invalid_dates
        sample_coordinates new_card_def click_def
        listeners_located [OF sample_dated_story(3) sample_dated_story(4)]
        location_button [OF sample_dated_story(3) sample_dated_story(4)]
        handleLocationClick_def dataset_number_def getAttribute_def el_def isNaN_def
        p [simplified] dispatchEvent_def unawaited_def Let_def)
qed

subsection \<open>Failing collaborators\<close>

text \<open>
  C9: on a card with a story, a favorite click whose helper call fails
  (\<open>removeFromFavorites\<close> for an active button, \<open>addToFavorites\<close> otherwise)
  returns normally, leaves every child of the card as it was, so also the button's
  class \<open>active\<close> and its label, and dispatches nothing; a share click returns
  normally and leaves every child as it was, whether \<open>navigator.share\<close> or the
  clipboard call fails or not.
\<close>

theorem C9_failed_calls_are_caught:
  assumes "story_data c = Some s" and "i < length (innerHTML c)"
  shows "(indexedDBHelper env = Some h \<and>
            (if classList_contains (innerHTML c ! i) ''active''
             then removeFromFavorites h (story_id s) = Inl e
             else addToFavorites h (Some s) = Inl e) \<longrightarrow>
          (\<exists>c'. handleFavoriteClick env i c = Inr c' \<and> innerHTML c' = innerHTML c \<and>
                 dispatched c' = dispatched c)) \<and>
         (\<exists>c'. handleShareClick env c = Inr c' \<and> innerHTML c' = innerHTML c)"
proof
  show "indexedDBHelper env = Some h \<and>
            (if classList_contains (innerHTML c ! i) ''active''
             then removeFromFavorites h (story_id s) = Inl e
             else addToFavorites h (Some s) = Inl e) \<longrightarrow>
          (\<exists>c'. handleFavoriteClick env i c = Inr c' \<and> innerHTML c' = innerHTML c \<and>
                 dispatched c' = dispatched c)"
    using assms
    by (auto simp: handleFavoriteClick_def favorite_try_def toast_def Let_def split: if_splits)
  show "\<exists>c'. handleShareClick env c = Inr c' \<and> innerHTML c' = innerHTML c"
    using assms(1)
    by (auto simp: handleShareClick_def toast_def dispatchEvent_def Let_def
        split: option.splits sum.splits)
qed

theorem C9_failed_calls_are_caught_witness:
  "story_data (new_card\<lparr>story_data := Some (validateStoryData sample_env dated_story),
       innerHTML := [el ''button'' [''btn-icon'', ''btn-favorite''] [] []]\<rparr>) =
     Some (validateStoryData sample_env dated_story) \<and>
   0 < length (innerHTML (new_card\<lparr>story_data := Some (validateStoryData sample_env dated_story),
       innerHTML := [el ''button'' [''btn-icon'', ''btn-favorite''] [] []]\<rparr>)) \<and>
   indexedDBHelper sample_env = Some failing_helper \<and>
   addToFavorites failing_helper (Some (validateStoryData sample_env dated_story)) =
     Inl (NamedError ''QuotaExceededError'') \<and>
   map_sum id innerHTML
     (handleFavoriteClick sample_env 0
        (new_card\<lparr>story_data := Some (validateStoryData sample_env dated_story),
           innerHTML := [el ''button'' [''btn-icon'', ''btn-favorite''] [] []]\<rparr>)) =
     Inr [el ''button'' [''btn-icon'', ''btn-favorite''] [] []] \<and>
   map_sum id innerHTML
     (handleShareClick sample_env
        (new_card\<lparr>story_data := Some (validateStoryData sample_env dated_story),
           innerHTML := [el ''button'' [''btn-icon'', ''btn-favorite''] [] []]\<rparr>)) =
     Inr [el ''button'' [''btn-icon'', ''btn-favorite''] [] []]"
proof -
  let ?c = "new_card\<lparr>story_data := Some (validateStoryData sample_env dated_story),
       innerHTML := [el ''button'' [''btn-icon'', ''btn-favorite''] [] []]\<rparr>"
  have h1: "story_data ?c = Some (validateStoryData sample_env dated_story)" by simp
  have h2: "0 < length (innerHTML ?c)" by simp
  have h3: "indexedDBHelper sample_env = Some failing_helper"
    by (simp add: sample_env_def)
  have h4: "addToFavorites failing_helper (Some (validateStoryData sample_env dated_story)) =
     Inl (NamedError ''QuotaExceededError'')"
    by (simp add: failing_helper_def)
  have h5: "\<not> classList_contains (innerHTML ?c ! 0) ''active''"
    by (simp add: classList_contains_def el_def)
  from C9_failed_calls_are_caught [OF h1 h2, of sample_env failing_helper
      "NamedError ''QuotaExceededError''"] h3 h4 h5
  have "(\<exists>c'. handleFavoriteClick sample_env 0 ?c = Inr c' \<and> innerHTML c' = innerHTML ?c) \<and>
        (\<exists>c'. handleShareClick sample_env ?c = Inr c' \<and> innerHTML c' = innerHTML ?c)"
    by auto
  then have "map_sum id innerHTML (handleFavoriteClick sample_env 0 ?c) = Inr (innerHTML ?c) \<and>
        map_sum id innerHTML (handleShareClick sample_env ?c) = Inr (innerHTML ?c)"
    by auto
  with h1 h2 h3 h4 show ?thesis by simp
qed

subsection \<open>Assigning a falsy story\<close>

text \<open>
  C10: assigning a falsy value to \<open>story\<close> returns normally and changes nothing
  of the card: the stored story, the children and their listeners stay, and no render
  runs.
\<close>

theorem C10_falsy_story_is_noop:
  "\<not> arg_truthy arg \<Longrightarrow> set_story env arg c = Inr c"
  by (simp add: set_story_def)

theorem C10_falsy_story_is_noop_witness:
  "\<not> arg_truthy (Primitive JNull) \<and>
   set_story sample_env (Primitive JNull) (new_card\<lparr>innerHTML := empty_markup\<rparr>) =
     Inr (new_card\<lparr>innerHTML := empty_markup\<rparr>)"
proof -
  have h: "\<not> arg_truthy (Primitive JNull)" by simp
  from C10_falsy_story_is_noop [OF h] h show ?thesis by simp
qed

end
